theory Spec2Isabelle
  imports Main
begin

section \<open>Python values and the operations the two modules apply to them\<close>

text \<open>
  The state record of \<^verbatim>\<open>state_manager.py\<close> is a Python \<^verbatim>\<open>dict\<close> read from and written to
  \<^verbatim>\<open>state.json\<close>; the configuration of \<^verbatim>\<open>llm_client.py\<close> is a \<^verbatim>\<open>dict\<close> as well. Both are
  modelled by one type of Python values. A \<^verbatim>\<open>dict\<close> keeps its insertion order, so it is an
  association list (its keys are strings: they come from JSON text or from keyword
  arguments). A \<^verbatim>\<open>str\<close> is the list of the bytes of its UTF-8 encoding. A \<^verbatim>\<open>float\<close> is kept as
  the literal that denotes it: no floating-point result is computed. \<open>PObject c\<close> is an
  object of any other class \<open>c\<close> (a \<^verbatim>\<open>set\<close>, say): it supports none of the operations below
  and the \<^verbatim>\<open>json\<close> module cannot encode it.
\<close>

datatype pyval =
    PNone
  | PBool bool
  | PInt int
  | PFloat string
  | PStr string
  | PList "pyval list"
  | PDict "(string \<times> pyval) list"
  | PObject string

text \<open>
  The exceptions that the modelled code can raise. \<open>NotModelled\<close> is no Python exception:
  it marks a result the model does not compute (arithmetic or comparison on floats or
  on lists).
\<close>

datatype llm_cause =
    UnknownType
  | TimedOut
  | NotFound
  | ConnectFailed
  | ParseFailed
  | UnexpectedFormat
  | Failed
  | ContextFileNotFound
  | ContextFileUnreadable

datatype exn =
    KeyError
  | TypeError
  | AttributeError
  | IndexError
  | ValueError
  | JSONDecodeError
  | LLMError llm_cause
  | NotModelled

fun dict_get :: "(string \<times> pyval) list \<Rightarrow> string \<Rightarrow> pyval option" where
  "dict_get [] k = None"
| "dict_get ((k', v) # ps) k = (if k' = k then Some v else dict_get ps k)"

text \<open>Storing under a key that is present keeps the key's position; a new key goes last.\<close>

fun dict_set :: "(string \<times> pyval) list \<Rightarrow> string \<Rightarrow> pyval \<Rightarrow> (string \<times> pyval) list" where
  "dict_set [] k v = [(k, v)]"
| "dict_set ((k', v') # ps) k v = (if k' = k then (k, v) # ps else (k', v') # dict_set ps k v)"

text \<open>\<^verbatim>\<open>{**a, **b}\<close>: the entries of \<open>a\<close>, each key of \<open>b\<close> stored over them in turn.\<close>

fun dict_merge :: "(string \<times> pyval) list \<Rightarrow> (string \<times> pyval) list \<Rightarrow> (string \<times> pyval) list" where
  "dict_merge a [] = a"
| "dict_merge a ((k, v) # b) = dict_merge (dict_set a k v) b"

fun strip_prefix :: "string \<Rightarrow> string \<Rightarrow> string option" where
  "strip_prefix [] s = Some s"
| "strip_prefix (p # ps) [] = None"
| "strip_prefix (p # ps) (c # cs) = (if p = c then strip_prefix ps cs else None)"


text \<open>\<^verbatim>\<open>d[k]\<close> for a string \<open>k\<close>: only a \<^verbatim>\<open>dict\<close> can be indexed by a string.\<close>

definition py_getitem :: "pyval \<Rightarrow> string \<Rightarrow> exn + pyval" where
  "py_getitem d k =
     (case d of
        PDict ps \<Rightarrow> (case dict_get ps k of None \<Rightarrow> Inl KeyError | Some v \<Rightarrow> Inr v)
      | _ \<Rightarrow> Inl TypeError)"

text \<open>\<^verbatim>\<open>d.get(k, default)\<close>: only a \<^verbatim>\<open>dict\<close> has the method.\<close>

definition py_get :: "pyval \<Rightarrow> string \<Rightarrow> pyval \<Rightarrow> exn + pyval" where
  "py_get d k dflt =
     (case d of
        PDict ps \<Rightarrow> (case dict_get ps k of None \<Rightarrow> Inr dflt | Some v \<Rightarrow> Inr v)
      | _ \<Rightarrow> Inl AttributeError)"


text \<open>\<^verbatim>\<open>d[k] = v\<close> for a string \<open>k\<close>. The model returns the container after the store.\<close>

definition py_setitem :: "pyval \<Rightarrow> string \<Rightarrow> pyval \<Rightarrow> exn + pyval" where
  "py_setitem d k v =
     (case d of
        PDict ps \<Rightarrow> Inr (PDict (dict_set ps k v))
      | _ \<Rightarrow> Inl TypeError)"




fun str_less :: "string \<Rightarrow> string \<Rightarrow> bool" where
  "str_less [] [] = False"
| "str_less [] (b # bs) = True"
| "str_less (a # as) [] = False"
| "str_less (a # as) (b # bs) =
     ((of_char a :: nat) < of_char b \<or> (a = b \<and> str_less as bs))"

definition as_int :: "pyval \<Rightarrow> int option" where
  "as_int x = (case x of PInt n \<Rightarrow> Some n | PBool b \<Rightarrow> Some (if b then 1 else 0) | _ \<Rightarrow> None)"

definition is_number :: "pyval \<Rightarrow> bool" where
  "is_number x = (case x of PInt n \<Rightarrow> True | PBool b \<Rightarrow> True | PFloat r \<Rightarrow> True | _ \<Rightarrow> False)"

text \<open>
  \<^verbatim>\<open>a < b\<close>: integers (and booleans) by value, strings by code points (which is the order
  of their UTF-8 bytes); a comparison with a float, or of two lists, is not computed;
  every other pair of classes is unordered.
\<close>

definition py_lt :: "pyval \<Rightarrow> pyval \<Rightarrow> exn + bool" where
  "py_lt a b =
     (case (as_int a, as_int b) of
        (Some m, Some n) \<Rightarrow> Inr (m < n)
      | _ \<Rightarrow>
          (if is_number a \<and> is_number b then Inl NotModelled
           else case (a, b) of
                  (PStr s, PStr t) \<Rightarrow> Inr (str_less s t)
                | (PList xs, PList ys) \<Rightarrow> Inl NotModelled
                | _ \<Rightarrow> Inl TypeError))"

section \<open>The \<^verbatim>\<open>json\<close> module\<close>

subsection \<open>\<^verbatim>\<open>json.dump(state, f, indent=2, ensure_ascii=False)\<close>\<close>

definition digit_char :: "nat \<Rightarrow> char" where
  "digit_char d = char_of (48 + d)"

fun digits :: "nat \<Rightarrow> string" where
  "digits n = (if n < 10 then [digit_char n] else digits (n div 10) @ [digit_char (n mod 10)])"

declare digits.simps [simp del]

definition int_repr :: "int \<Rightarrow> string" where
  "int_repr i = (if i < 0 then CHR ''-'' # digits (nat (- i)) else digits (nat i))"

definition hex_char :: "nat \<Rightarrow> char" where
  "hex_char d = (if d < 10 then char_of (48 + d) else char_of (87 + d))"

text \<open>
  With \<^verbatim>\<open>ensure_ascii=False\<close> the encoder escapes the quote, the backslash and the control
  characters below 0x20 (the five with a short form by it, the others as
  \<^verbatim>\<open>\u00XX\<close>); every other character is written as it is.
\<close>

definition escape_char :: "char \<Rightarrow> string" where
  "escape_char c =
     (if c = CHR 0x22 then [CHR 0x5C, CHR 0x22]
      else if c = CHR 0x5C then [CHR 0x5C, CHR 0x5C]
      else if c = CHR 0x0A then [CHR 0x5C, CHR ''n'']
      else if c = CHR 0x0D then [CHR 0x5C, CHR ''r'']
      else if c = CHR 0x09 then [CHR 0x5C, CHR ''t'']
      else if c = CHR 0x08 then [CHR 0x5C, CHR ''b'']
      else if c = CHR 0x0C then [CHR 0x5C, CHR ''f'']
      else if (of_char c :: nat) < 32
        then [CHR 0x5C, CHR ''u'', CHR ''0'', CHR ''0'',
              hex_char (of_char c div 16), hex_char (of_char c mod 16)]
      else [c])"

definition encode_basestring :: "string \<Rightarrow> string" where
  "encode_basestring s = CHR 0x22 # concat (map escape_char s) @ [CHR 0x22]"

definition newline_indent :: "nat \<Rightarrow> string" where
  "newline_indent level = CHR 0x0A # replicate (2 * level) CHR '' ''"

text \<open>
  \<^verbatim>\<open>json.dump\<close> writes the chunks of the encoder's generator to the file one by one, and
  the generator raises \<^verbatim>\<open>TypeError\<close> when it reaches an object it cannot encode. So an
  encoding is the text written so far and whether the encoder finished; \<open>emit_then\<close>
  puts two encodings in sequence and stops at the first that did not finish.
\<close>

definition emit_then :: "string \<times> bool \<Rightarrow> string \<times> bool \<Rightarrow> string \<times> bool" where
  "emit_then a b = (if snd a then (fst a @ fst b, snd b) else a)"

fun iterencode :: "nat \<Rightarrow> pyval \<Rightarrow> string \<times> bool"
  and iterencode_list :: "nat \<Rightarrow> pyval list \<Rightarrow> string \<times> bool"
  and iterencode_dict :: "nat \<Rightarrow> (string \<times> pyval) list \<Rightarrow> string \<times> bool"
where
  "iterencode level PNone = (''null'', True)"
| "iterencode level (PBool b) = (if b then ''true'' else ''false'', True)"
| "iterencode level (PInt i) = (int_repr i, True)"
| "iterencode level (PFloat r) = (r, True)"
| "iterencode level (PStr s) = (encode_basestring s, True)"
| "iterencode level (PList []) = (''[]'', True)"
| "iterencode level (PList (x # xs)) =
     emit_then (CHR ''['' # newline_indent (Suc level), True)
       (emit_then (iterencode_list (Suc level) (x # xs))
          (newline_indent level @ '']'', True))"
| "iterencode level (PDict []) = (''{}'', True)"
| "iterencode level (PDict (p # ps)) =
     emit_then (CHR ''{'' # newline_indent (Suc level), True)
       (emit_then (iterencode_dict (Suc level) (p # ps))
          (newline_indent level @ ''}'', True))"
| "iterencode level (PObject c) = ([], False)"
| "iterencode_list level [] = ([], True)"
| "iterencode_list level [x] = iterencode level x"
| "iterencode_list level (x # y # ys) =
     emit_then (iterencode level x)
       (emit_then (CHR '','' # newline_indent level, True) (iterencode_list level (y # ys)))"
| "iterencode_dict level [] = ([], True)"
| "iterencode_dict level [(k, v)] =
     emit_then (encode_basestring k @ '': '', True) (iterencode level v)"
| "iterencode_dict level ((k, v) # q # qs) =
     emit_then (encode_basestring k @ '': '', True)
       (emit_then (iterencode level v)
          (emit_then (CHR '','' # newline_indent level, True) (iterencode_dict level (q # qs))))"

subsection \<open>\<^verbatim>\<open>json.load(f)\<close>\<close>

text \<open>
  The decoder is modelled in two passes that together accept the texts Python's decoder
  accepts: a lexer (white space between tokens, string literals with their escapes,
  numbers, the literal names) and a parser that runs over the tokens with an explicit
  stack of the containers that are still open. Both passes are total: the result \<open>None\<close>
  is a text the decoder rejects with \<^verbatim>\<open>JSONDecodeError\<close>.
\<close>

datatype token =
    TLBrace | TRBrace | TLBracket | TRBracket | TComma | TColon
  | TString string | TInt int | TFloat string | TTrue | TFalse | TNull

definition is_ws :: "char \<Rightarrow> bool" where
  "is_ws c = (c = CHR '' '' \<or> c = CHR 0x09 \<or> c = CHR 0x0A \<or> c = CHR 0x0D)"

definition is_digit :: "char \<Rightarrow> bool" where
  "is_digit c = (48 \<le> (of_char c :: nat) \<and> (of_char c :: nat) \<le> 57)"

definition digit_val :: "char \<Rightarrow> nat" where
  "digit_val c = of_char c - 48"

definition hex_val :: "char \<Rightarrow> nat option" where
  "hex_val c =
     (let n = (of_char c :: nat) in
      if 48 \<le> n \<and> n \<le> 57 then Some (n - 48)
      else if 97 \<le> n \<and> n \<le> 102 then Some (n - 87)
      else if 65 \<le> n \<and> n \<le> 70 then Some (n - 55)
      else None)"

fun hex4 :: "string \<Rightarrow> (nat \<times> string) option" where
  "hex4 (a # b # c # d # rest) =
     (case (hex_val a, hex_val b, hex_val c, hex_val d) of
        (Some w, Some x, Some y, Some z) \<Rightarrow> Some (((w * 16 + x) * 16 + y) * 16 + z, rest)
      | _ \<Rightarrow> None)"
| "hex4 _ = None"

definition utf8 :: "nat \<Rightarrow> string" where
  "utf8 n =
     (if n < 0x80 then [char_of n]
      else if n < 0x800 then [char_of (0xC0 + n div 64), char_of (0x80 + n mod 64)]
      else if n < 0x10000 then
        [char_of (0xE0 + n div 4096), char_of (0x80 + n div 64 mod 64), char_of (0x80 + n mod 64)]
      else
        [char_of (0xF0 + n div 262144), char_of (0x80 + n div 4096 mod 64),
         char_of (0x80 + n div 64 mod 64), char_of (0x80 + n mod 64)])"

definition decode_uXXXX :: "string \<Rightarrow> (string \<times> string) option" where
  "decode_uXXXX s =
     (case hex4 s of
        None \<Rightarrow> None
      | Some (hi, rest) \<Rightarrow>
          (if 0xD800 \<le> hi \<and> hi \<le> 0xDBFF then
             (case rest of
                b # u # rest' \<Rightarrow>
                  (if b = CHR 0x5C \<and> u = CHR ''u'' then
                     (case hex4 rest' of
                        None \<Rightarrow> None
                      | Some (lo, rest'') \<Rightarrow>
                          (if 0xDC00 \<le> lo \<and> lo \<le> 0xDFFF
                           then Some (utf8 (0x10000 + (hi - 0xD800) * 1024 + (lo - 0xDC00)), rest'')
                           else Some (utf8 hi, rest)))
                   else Some (utf8 hi, rest))
              | _ \<Rightarrow> Some (utf8 hi, rest))
           else Some (utf8 hi, rest)))"

definition backslash :: "char \<Rightarrow> char option" where
  "backslash e =
     (if e = CHR 0x22 then Some (CHR 0x22)
      else if e = CHR 0x5C then Some (CHR 0x5C)
      else if e = CHR ''/'' then Some (CHR ''/'')
      else if e = CHR ''b'' then Some (CHR 0x08)
      else if e = CHR ''f'' then Some (CHR 0x0C)
      else if e = CHR ''n'' then Some (CHR 0x0A)
      else if e = CHR ''r'' then Some (CHR 0x0D)
      else if e = CHR ''t'' then Some (CHR 0x09)
      else None)"

lemma hex4_shorter: "hex4 s = Some (n, rest) \<Longrightarrow> length rest < length s"
  by (cases s rule: hex4.cases) (auto split: option.splits)

lemma decode_uXXXX_shorter: "decode_uXXXX s = Some (bs, rest) \<Longrightarrow> length rest < length s"
  unfolding decode_uXXXX_def
  by (auto split: option.splits if_splits list.splits dest!: hex4_shorter)

function scanstring :: "string \<Rightarrow> (string \<times> string) option" where
  "scanstring [] = None"
| "scanstring (c # cs) =
     (if c = CHR 0x22 then Some ([], cs)
      else if c = CHR 0x5C then
        (case cs of
           [] \<Rightarrow> None
         | e # es \<Rightarrow>
             (if e = CHR ''u'' then
                (case decode_uXXXX es of
                   None \<Rightarrow> None
                 | Some (bs, rest) \<Rightarrow> map_option (\<lambda>(s, r). (bs @ s, r)) (scanstring rest))
              else
                (case backslash e of
                   None \<Rightarrow> None
                 | Some d \<Rightarrow> map_option (\<lambda>(s, r). (d # s, r)) (scanstring es))))
      else if (of_char c :: nat) < 32 then None
      else map_option (\<lambda>(s, r). (c # s, r)) (scanstring cs))"
  by pat_completeness auto
termination
  by (relation "measure length") (auto dest!: decode_uXXXX_shorter)

lemma scanstring_shorter: "scanstring s = Some (x, rest) \<Longrightarrow> length rest < length s"
proof (induction s arbitrary: x rest rule: scanstring.induct)
  case 1
  then show ?case by simp
next
  case (2 c cs)
  then show ?case
    by (fastforce split: if_splits list.splits option.splits dest!: decode_uXXXX_shorter)
qed

definition digits_val :: "string \<Rightarrow> nat" where
  "digits_val ds = foldl (\<lambda>n c. 10 * n + digit_val c) 0 ds"

text \<open>The integer part of a number: a single 0, or a non-zero digit followed by digits.\<close>

definition match_int :: "string \<Rightarrow> (string \<times> string) option" where
  "match_int s =
     (case s of
        [] \<Rightarrow> None
      | c # cs \<Rightarrow>
          if c = CHR ''0'' then Some ([c], cs)
          else if is_digit c then Some (c # takeWhile is_digit cs, dropWhile is_digit cs)
          else None)"

definition match_frac :: "string \<Rightarrow> string \<times> string" where
  "match_frac s =
     (case s of
        p # d # ds \<Rightarrow>
          if p = CHR ''.'' \<and> is_digit d then (p # d # takeWhile is_digit ds, dropWhile is_digit ds)
          else ([], s)
      | _ \<Rightarrow> ([], s))"

definition match_exp :: "string \<Rightarrow> string \<times> string" where
  "match_exp s =
     (case s of
        e # d # ds \<Rightarrow>
          if e = CHR ''e'' \<or> e = CHR ''E'' then
            (if is_digit d then (e # d # takeWhile is_digit ds, dropWhile is_digit ds)
             else if d = CHR ''+'' \<or> d = CHR ''-'' then
               (case ds of
                  d' # ds' \<Rightarrow>
                    if is_digit d' then (e # d # d' # takeWhile is_digit ds', dropWhile is_digit ds')
                    else ([], s)
                | [] \<Rightarrow> ([], s))
             else ([], s))
          else ([], s)
      | _ \<Rightarrow> ([], s))"

definition match_number :: "string \<Rightarrow> (token \<times> string) option" where
  "match_number s =
     (let (sign, s1) = (case s of c # cs \<Rightarrow> if c = CHR ''-'' then ([c], cs) else ([], s) | [] \<Rightarrow> ([], s))
      in case match_int s1 of
           None \<Rightarrow> None
         | Some (ip, s2) \<Rightarrow>
             (let (fp, s3) = match_frac s2; (ep, s4) = match_exp s3
              in if fp = [] \<and> ep = []
                 then Some (TInt (if sign = [] then int (digits_val ip) else - int (digits_val ip)), s4)
                 else Some (TFloat (sign @ ip @ fp @ ep), s4)))"

lemma match_int_shorter: "match_int s = Some (ip, r) \<Longrightarrow> length r < length s"
  unfolding match_int_def
  by (auto split: list.splits if_splits simp: less_Suc_eq_le length_dropWhile_le)

lemma match_frac_shorter: "match_frac s = (fp, r) \<Longrightarrow> length r \<le> length s"
  unfolding match_frac_def
  by (auto split: list.splits if_splits simp: le_SucI length_dropWhile_le)

lemma match_exp_shorter: "match_exp s = (ep, r) \<Longrightarrow> length r \<le> length s"
  unfolding match_exp_def
  by (auto split: list.splits if_splits simp: le_SucI length_dropWhile_le)

lemma match_number_shorter: "match_number s = Some (t, r) \<Longrightarrow> length r < length s"
  unfolding match_number_def Let_def
  by (auto split: list.splits if_splits option.splits prod.splits
       dest!: match_int_shorter match_frac_shorter match_exp_shorter)

lemma strip_prefix_length: "strip_prefix p s = Some r \<Longrightarrow> length s = length p + length r"
  by (induction p s rule: strip_prefix.induct) (auto split: if_splits)

definition match_literal :: "string \<Rightarrow> token \<Rightarrow> string \<Rightarrow> (token \<times> string) option" where
  "match_literal w t s = map_option (Pair t) (strip_prefix w s)"

lemma match_literal_shorter:
  "match_literal w t s = Some (t', r) \<Longrightarrow> w \<noteq> [] \<Longrightarrow> length r < length s"
  unfolding match_literal_def by (cases w) (auto dest!: strip_prefix_length)

definition match_word :: "string \<Rightarrow> (token \<times> string) option" where
  "match_word s =
     (case match_literal ''null'' TNull s of Some m \<Rightarrow> Some m | None \<Rightarrow>
      case match_literal ''true'' TTrue s of Some m \<Rightarrow> Some m | None \<Rightarrow>
      case match_literal ''false'' TFalse s of Some m \<Rightarrow> Some m | None \<Rightarrow>
      case match_literal ''NaN'' (TFloat ''NaN'') s of Some m \<Rightarrow> Some m | None \<Rightarrow>
      case match_literal ''Infinity'' (TFloat ''Infinity'') s of Some m \<Rightarrow> Some m | None \<Rightarrow>
      case match_literal ''-Infinity'' (TFloat ''-Infinity'') s of Some m \<Rightarrow> Some m | None \<Rightarrow>
      match_number s)"

lemma match_word_shorter: "match_word s = Some (t, r) \<Longrightarrow> length r < length s"
  unfolding match_word_def
  by (auto split: option.splits dest: match_literal_shorter match_number_shorter)

function lexer :: "string \<Rightarrow> token list option" where
  "lexer [] = Some []"
| "lexer (c # cs) =
     (if is_ws c then lexer cs
      else if c = CHR ''{'' then map_option (Cons TLBrace) (lexer cs)
      else if c = CHR ''}'' then map_option (Cons TRBrace) (lexer cs)
      else if c = CHR ''['' then map_option (Cons TLBracket) (lexer cs)
      else if c = CHR '']'' then map_option (Cons TRBracket) (lexer cs)
      else if c = CHR '','' then map_option (Cons TComma) (lexer cs)
      else if c = CHR '':'' then map_option (Cons TColon) (lexer cs)
      else if c = CHR 0x22 then
        (case scanstring cs of
           None \<Rightarrow> None
         | Some (s, rest) \<Rightarrow> map_option (Cons (TString s)) (lexer rest))
      else
        (case match_word (c # cs) of
           None \<Rightarrow> None
         | Some (t, rest) \<Rightarrow> map_option (Cons t) (lexer rest)))"
  by pat_completeness auto
termination
  by (relation "measure length")
     (auto dest!: scanstring_shorter match_word_shorter)

datatype frame = InList "pyval list" | InObj "(string \<times> pyval) list" | InPair "(string \<times> pyval) list" string

datatype mode = WantValue | WantValueOrClose | WantKeyOrClose | WantKey | WantColon | AfterValue | Done pyval

fun complete :: "pyval \<Rightarrow> frame list \<Rightarrow> (mode \<times> frame list) option" where
  "complete v [] = Some (Done v, [])"
| "complete v (InList xs # st) = Some (AfterValue, InList (xs @ [v]) # st)"
| "complete v (InPair ps k # st) = Some (AfterValue, InObj (dict_set ps k v) # st)"
| "complete v (InObj ps # st) = None"

fun start_value :: "token \<Rightarrow> frame list \<Rightarrow> (mode \<times> frame list) option" where
  "start_value TLBrace st = Some (WantKeyOrClose, InObj [] # st)"
| "start_value TLBracket st = Some (WantValueOrClose, InList [] # st)"
| "start_value (TString s) st = complete (PStr s) st"
| "start_value (TInt i) st = complete (PInt i) st"
| "start_value (TFloat r) st = complete (PFloat r) st"
| "start_value TTrue st = complete (PBool True) st"
| "start_value TFalse st = complete (PBool False) st"
| "start_value TNull st = complete PNone st"
| "start_value _ st = None"

definition close_list :: "frame list \<Rightarrow> (mode \<times> frame list) option" where
  "close_list st = (case st of InList xs # st' \<Rightarrow> complete (PList xs) st' | _ \<Rightarrow> None)"

definition close_obj :: "frame list \<Rightarrow> (mode \<times> frame list) option" where
  "close_obj st = (case st of InObj ps # st' \<Rightarrow> complete (PDict ps) st' | _ \<Rightarrow> None)"

definition take_key :: "string \<Rightarrow> frame list \<Rightarrow> (mode \<times> frame list) option" where
  "take_key k st = (case st of InObj ps # st' \<Rightarrow> Some (WantColon, InPair ps k # st') | _ \<Rightarrow> None)"

definition after_comma :: "frame list \<Rightarrow> (mode \<times> frame list) option" where
  "after_comma st =
     (case st of
        InList xs # st' \<Rightarrow> Some (WantValue, st)
      | InObj ps # st' \<Rightarrow> Some (WantKey, st)
      | _ \<Rightarrow> None)"

definition step :: "mode \<Rightarrow> frame list \<Rightarrow> token \<Rightarrow> (mode \<times> frame list) option" where
  "step m st t =
     (case m of
        WantValue \<Rightarrow> start_value t st
      | WantValueOrClose \<Rightarrow> (case t of TRBracket \<Rightarrow> close_list st | _ \<Rightarrow> start_value t st)
      | WantKeyOrClose \<Rightarrow>
          (case t of TRBrace \<Rightarrow> close_obj st | TString k \<Rightarrow> take_key k st | _ \<Rightarrow> None)
      | WantKey \<Rightarrow> (case t of TString k \<Rightarrow> take_key k st | _ \<Rightarrow> None)
      | WantColon \<Rightarrow> (case t of TColon \<Rightarrow> Some (WantValue, st) | _ \<Rightarrow> None)
      | AfterValue \<Rightarrow>
          (case t of
             TComma \<Rightarrow> after_comma st
           | TRBracket \<Rightarrow> close_list st
           | TRBrace \<Rightarrow> close_obj st
           | _ \<Rightarrow> None)
      | Done v \<Rightarrow> None)"

fun run :: "mode \<Rightarrow> frame list \<Rightarrow> token list \<Rightarrow> pyval option" where
  "run m st [] = (case m of Done v \<Rightarrow> Some v | _ \<Rightarrow> None)"
| "run m st (t # ts) = (case step m st t of None \<Rightarrow> None | Some (m', st') \<Rightarrow> run m' st' ts)"

definition json_loads :: "string \<Rightarrow> pyval option" where
  "json_loads s = (case lexer s of None \<Rightarrow> None | Some ts \<Rightarrow> run WantValue [] ts)"

section \<open>\<^verbatim>\<open>state_manager.py\<close>\<close>

text \<open>
  A \<^verbatim>\<open>StateManager\<close> is made for one task; its paths \<^verbatim>\<open>task_dir\<close> and \<^verbatim>\<open>state_file\<close> are fixed
  by the constructor. The world it acts on is what lies at those two paths, and the
  clock: \<open>task_dir\<close> tells whether the directory exists, \<open>state_file\<close> is the text of
  \<^verbatim>\<open>state.json\<close> (\<open>None\<close> when there is no such file), and the \<open>n\<close>-th reading of the clock
  gives the time stamp \<open>clock n\<close>. The file system is taken to work: no operation fails for
  lack of permission or space.
\<close>

record manager =
  runs_dir :: string
  task_id :: string

record world =
  task_dir :: bool
  state_file :: "string option"
  clock :: "nat \<Rightarrow> string"
  ticks :: nat

definition INIT :: string where "INIT = ''INIT''"
definition COMPLETED :: string where "COMPLETED = ''COMPLETED''"
definition FAILED :: string where "FAILED = ''FAILED''"

definition get_timestamp :: "world \<Rightarrow> string \<times> world" where
  "get_timestamp w = (clock w (ticks w), w\<lparr>ticks := Suc (ticks w)\<rparr>)"

text \<open>
  \<^verbatim>\<open>save\<close> creates the directory, stamps \<^verbatim>\<open>updated_at\<close> on the dictionary it was given (the
  caller sees the stamp: the model returns the stamped state), opens the file for
  writing, which empties it, and lets \<^verbatim>\<open>json.dump\<close> write. When the encoder raises, the
  \<^verbatim>\<open>with\<close> statement closes the file, which then holds the text written up to there.
\<close>

definition save :: "pyval \<Rightarrow> world \<Rightarrow> (exn + pyval) \<times> world" where
  "save state w =
     (let w1 = w\<lparr>task_dir := True\<rparr>;
          (timestamp, w2) = get_timestamp w1
      in case py_setitem state ''updated_at'' (PStr timestamp) of
           Inl e \<Rightarrow> (Inl e, w2)
         | Inr state' \<Rightarrow>
             (let (written, finished) = iterencode 0 state'
              in (if finished then Inr state' else Inl TypeError,
                  w2\<lparr>state_file := Some written\<rparr>)))"

definition init_state :: "manager \<Rightarrow> int \<Rightarrow> world \<Rightarrow> (exn + pyval) \<times> world" where
  "init_state self max_retries w =
     (let w1 = w\<lparr>task_dir := True\<rparr>;
          (timestamp, w2) = get_timestamp w1;
          state = PDict
            [(''task_id'', PStr (task_id self)),
             (''status'', PStr INIT),
             (''created_at'', PStr timestamp),
             (''updated_at'', PStr timestamp),
             (''steps'', PDict
                [(''design'', PDict [(''status'', PStr ''pending'')]),
                 (''test_cases'', PDict [(''status'', PStr ''pending'')]),
                 (''implementation'', PDict [(''status'', PStr ''pending''), (''attempt'', PInt 0)]),
                 (''testing'', PDict [(''status'', PStr ''pending''), (''results'', PList [])]),
                 (''review'', PDict [(''status'', PStr ''pending'')])]),
             (''escalation'', PDict [(''count'', PInt 0), (''history'', PList [])]),
             (''retry_count'', PInt 0),
             (''max_retries'', PInt max_retries)]
      in save state w2)"

definition load :: "manager \<Rightarrow> world \<Rightarrow> (exn + pyval) \<times> world" where
  "load self w =
     (case state_file w of
        None \<Rightarrow> init_state self 3 w
      | Some content \<Rightarrow>
          (case json_loads content of
             None \<Rightarrow> (Inl JSONDecodeError, w)
           | Some state \<Rightarrow> (Inr state, w)))"













definition can_retry :: "manager \<Rightarrow> world \<Rightarrow> (exn + bool) \<times> world" where
  "can_retry self w =
     (case load self w of
        (Inl e, w1) \<Rightarrow> (Inl e, w1)
      | (Inr state, w1) \<Rightarrow>
          (case py_get state ''retry_count'' (PInt 0) of
             Inl e \<Rightarrow> (Inl e, w1)
           | Inr n \<Rightarrow>
               (case py_get state ''max_retries'' (PInt 3) of
                  Inl e \<Rightarrow> (Inl e, w1)
                | Inr m \<Rightarrow> (py_lt n m, w1))))"

definition is_completed :: "manager \<Rightarrow> world \<Rightarrow> (exn + bool) \<times> world" where
  "is_completed self w =
     (case load self w of
        (Inl e, w1) \<Rightarrow> (Inl e, w1)
      | (Inr state, w1) \<Rightarrow>
          (case py_get state ''status'' PNone of
             Inl e \<Rightarrow> (Inl e, w1)
           | Inr status \<Rightarrow> (Inr (status = PStr COMPLETED), w1)))"

definition is_failed :: "manager \<Rightarrow> world \<Rightarrow> (exn + bool) \<times> world" where
  "is_failed self w =
     (case load self w of
        (Inl e, w1) \<Rightarrow> (Inl e, w1)
      | (Inr state, w1) \<Rightarrow>
          (case py_get state ''status'' PNone of
             Inl e \<Rightarrow> (Inl e, w1)
           | Inr status \<Rightarrow> (Inr (status = PStr FAILED), w1)))"

section \<open>\<^verbatim>\<open>llm_client.py\<close>\<close>

text \<open>
  The client reaches the outside through \<^verbatim>\<open>subprocess.run\<close>, \<^verbatim>\<open>urllib.request.urlopen\<close> and
  the files it reads. The environment gives the outcome of each such call as a function
  of the call's arguments, the time-out among them.
\<close>

datatype proc_outcome =
    Completed int string string
  | TimeoutExpired
  | FileNotFoundError
  | ProcException

datatype http_outcome =
    Response string
  | URLError
  | TimeoutError
  | HttpException

datatype context_file =
    NoSuchFile
  | Unreadable
  | Readable string string

record env =
  subprocess_run :: "pyval list \<Rightarrow> pyval \<Rightarrow> proc_outcome"
  urlopen :: "pyval \<Rightarrow> pyval \<Rightarrow> pyval \<Rightarrow> http_outcome"
  path :: "string \<Rightarrow> context_file"

record llm_client =
  llm_type :: string
  config :: "(string \<times> pyval) list"

definition DEFAULT_CONFIGS :: "(string \<times> (string \<times> pyval) list) list" where
  "DEFAULT_CONFIGS =
     [(''claude'',
        [(''command'', PList [PStr ''claude'', PStr ''-p'']),
         (''args'', PList [PStr ''--print'']),
         (''timeout'', PInt 120)]),
      (''gemini'',
        [(''command'', PList [PStr ''gemini'', PStr ''-p'']),
         (''args'', PList []),
         (''timeout'', PInt 120)]),
      (''lfm'',
        [(''url'', PStr ''http://localhost:8080/v1/chat/completions''),
         (''model'', PStr ''LFM2.5-1.2B-Instruct''),
         (''temperature'', PFloat ''0.7''),
         (''max_tokens'', PInt 4096),
         (''timeout'', PInt 60)])]"

definition SUPPORTED_TYPES :: "string list" where
  "SUPPORTED_TYPES = [''claude'', ''gemini'', ''lfm'']"

text \<open>\<^verbatim>\<open>LLMClient.__init__\<close>; \<^verbatim>\<open>config or {}\<close> is the empty dictionary when no configuration is given.\<close>

definition LLMClient :: "string \<Rightarrow> (string \<times> pyval) list option \<Rightarrow> exn + llm_client" where
  "LLMClient type cfg =
     (if type \<notin> set SUPPORTED_TYPES then Inl ValueError
      else case map_of DEFAULT_CONFIGS type of
             None \<Rightarrow> Inl KeyError
           | Some defaults \<Rightarrow>
               Inr \<lparr>llm_type = type,
                    config = dict_merge defaults (case cfg of None \<Rightarrow> [] | Some c \<Rightarrow> c)\<rparr>)"

text \<open>\<^verbatim>\<open>self.config.get(key)\<close>, which is \<^verbatim>\<open>None\<close> for a key that is absent.\<close>

definition config_get :: "llm_client \<Rightarrow> string \<Rightarrow> pyval" where
  "config_get self key = (case dict_get (config self) key of None \<Rightarrow> PNone | Some v \<Rightarrow> v)"

text \<open>
  \<^verbatim>\<open>timeout or self.config.get("timeout")\<close>: the left operand is the result when it is truthy;
  \<^verbatim>\<open>None\<close> and \<^verbatim>\<open>0\<close> are falsy.
\<close>

definition effective_timeout :: "llm_client \<Rightarrow> int option \<Rightarrow> pyval" where
  "effective_timeout self timeout =
     (case timeout of
        None \<Rightarrow> config_get self ''timeout''
      | Some t \<Rightarrow> if t = 0 then config_get self ''timeout'' else PInt t)"

text \<open>\<^verbatim>\<open>list(x)\<close> and \<^verbatim>\<open>xs.extend(x)\<close> iterate over \<open>x\<close>: the elements of a list, the keys of a dictionary, the characters of a string.\<close>

definition py_iter :: "pyval \<Rightarrow> exn + pyval list" where
  "py_iter x =
     (case x of
        PList xs \<Rightarrow> Inr xs
      | PDict ps \<Rightarrow> Inr (map (\<lambda>p. PStr (fst p)) ps)
      | PStr s \<Rightarrow> Inr (map (\<lambda>c. PStr [c]) s)
      | _ \<Rightarrow> Inl TypeError)"

text \<open>\<^verbatim>\<open>if system:\<close> holds for a system prompt that is given and not empty.\<close>

definition with_system :: "string option \<Rightarrow> string \<Rightarrow> string" where
  "with_system system prompt =
     (case system of
        None \<Rightarrow> prompt
      | Some s \<Rightarrow> if s = [] then prompt else ''System: '' @ s @ [CHR 0x0A, CHR 0x0A] @ ''User: '' @ prompt)"

definition is_space :: "char \<Rightarrow> bool" where
  "is_space c = ((of_char c :: nat) \<in> {9, 10, 11, 12, 13, 28, 29, 30, 31, 32})"

text \<open>\<^verbatim>\<open>s.strip()\<close>, for the white space of ASCII.\<close>

definition strip :: "string \<Rightarrow> string" where
  "strip s = rev (dropWhile is_space (rev (dropWhile is_space s)))"

text \<open>
  \<^verbatim>\<open>_invoke_claude\<close> and \<^verbatim>\<open>_invoke_gemini\<close> have the same body but for the messages of their
  errors: the command line is built outside the \<^verbatim>\<open>try\<close> block, so its errors are raised as
  they are; inside the block every exception ends as \<^verbatim>\<open>LLMError\<close>, also the one the block
  raises itself for a return code other than 0, which its last handler wraps again.
\<close>

definition invoke_cli :: "env \<Rightarrow> llm_client \<Rightarrow> string \<Rightarrow> string option \<Rightarrow> pyval \<Rightarrow> exn + pyval" where
  "invoke_cli e self prompt system timeout =
     (case py_getitem (PDict (config self)) ''command'' of
        Inl x \<Rightarrow> Inl x
      | Inr c \<Rightarrow>
          (case py_iter c of
             Inl x \<Rightarrow> Inl x
           | Inr command \<Rightarrow>
               (case py_iter (case dict_get (config self) ''args'' of None \<Rightarrow> PList [] | Some a \<Rightarrow> a) of
                  Inl x \<Rightarrow> Inl x
                | Inr args \<Rightarrow>
                    (case subprocess_run e (command @ [PStr (with_system system prompt)] @ args) timeout of
                       Completed returncode out err \<Rightarrow>
                         if returncode \<noteq> 0 then Inl (LLMError Failed) else Inr (PStr (strip out))
                     | TimeoutExpired \<Rightarrow> Inl (LLMError TimedOut)
                     | FileNotFoundError \<Rightarrow> Inl (LLMError NotFound)
                     | ProcException \<Rightarrow> Inl (LLMError Failed)))))"

definition invoke_claude :: "env \<Rightarrow> llm_client \<Rightarrow> string \<Rightarrow> string option \<Rightarrow> pyval \<Rightarrow> exn + pyval" where
  "invoke_claude = invoke_cli"

definition invoke_gemini :: "env \<Rightarrow> llm_client \<Rightarrow> string \<Rightarrow> string option \<Rightarrow> pyval \<Rightarrow> exn + pyval" where
  "invoke_gemini = invoke_cli"

definition messages :: "string option \<Rightarrow> string \<Rightarrow> pyval" where
  "messages system prompt =
     PList ((case system of
               None \<Rightarrow> []
             | Some s \<Rightarrow> if s = [] then [] else [PDict [(''role'', PStr ''system''), (''content'', PStr s)]]) @
            [PDict [(''role'', PStr ''user''), (''content'', PStr prompt)]])"

text \<open>\<^verbatim>\<open>xs[0]\<close>: the first element of a list or of a string; a dictionary read from JSON has no key 0.\<close>

definition py_first :: "pyval \<Rightarrow> exn + pyval" where
  "py_first x =
     (case x of
        PList xs \<Rightarrow> (case xs of [] \<Rightarrow> Inl IndexError | y # ys \<Rightarrow> Inr y)
      | PStr s \<Rightarrow> (case s of [] \<Rightarrow> Inl IndexError | c # cs \<Rightarrow> Inr (PStr [c]))
      | PDict ps \<Rightarrow> Inl KeyError
      | _ \<Rightarrow> Inl TypeError)"

text \<open>\<^verbatim>\<open>result["choices"][0]["message"]["content"]\<close>\<close>

definition response_content :: "pyval \<Rightarrow> exn + pyval" where
  "response_content result =
     (case py_getitem result ''choices'' of
        Inl x \<Rightarrow> Inl x
      | Inr choices \<Rightarrow>
          (case py_first choices of
             Inl x \<Rightarrow> Inl x
           | Inr choice \<Rightarrow>
               (case py_getitem choice ''message'' of
                  Inl x \<Rightarrow> Inl x
                | Inr message \<Rightarrow> py_getitem message ''content'')))"

text \<open>
  \<^verbatim>\<open>_invoke_lfm\<close>: the request is built from the configuration outside the \<^verbatim>\<open>try\<close> block;
  inside it the request body is encoded, the request is sent and the response is
  decoded, and every exception ends as \<^verbatim>\<open>LLMError\<close>. The environment receives the URL,
  the request data and the time-out.
\<close>

definition invoke_lfm :: "env \<Rightarrow> llm_client \<Rightarrow> string \<Rightarrow> string option \<Rightarrow> pyval \<Rightarrow> exn + pyval" where
  "invoke_lfm e self prompt system timeout =
     (case py_getitem (PDict (config self)) ''url'' of
        Inl x \<Rightarrow> Inl x
      | Inr url \<Rightarrow>
     (case py_getitem (PDict (config self)) ''model'' of
        Inl x \<Rightarrow> Inl x
      | Inr model \<Rightarrow>
     (case py_getitem (PDict (config self)) ''temperature'' of
        Inl x \<Rightarrow> Inl x
      | Inr temperature \<Rightarrow>
     (case py_getitem (PDict (config self)) ''max_tokens'' of
        Inl x \<Rightarrow> Inl x
      | Inr max_tokens \<Rightarrow>
          (let data = PDict [(''model'', model), (''messages'', messages system prompt),
                             (''temperature'', temperature), (''max_tokens'', max_tokens)]
           in if \<not> snd (iterencode 0 data) then Inl (LLMError Failed)
              else case urlopen e url data timeout of
                     Response body \<Rightarrow>
                       (case json_loads body of
                          None \<Rightarrow> Inl (LLMError ParseFailed)
                        | Some result \<Rightarrow>
                            (case response_content result of
                               Inl KeyError \<Rightarrow> Inl (LLMError UnexpectedFormat)
                             | Inl x \<Rightarrow> Inl (LLMError Failed)
                             | Inr content \<Rightarrow> Inr content))
                   | URLError \<Rightarrow> Inl (LLMError ConnectFailed)
                   | TimeoutError \<Rightarrow> Inl (LLMError TimedOut)
                   | HttpException \<Rightarrow> Inl (LLMError Failed))))))"

text \<open>The conditional of \<^verbatim>\<open>invoke\<close> that hands the call to the backend of the client's type.\<close>

definition dispatch :: "env \<Rightarrow> llm_client \<Rightarrow> string \<Rightarrow> string option \<Rightarrow> pyval \<Rightarrow> exn + pyval" where
  "dispatch e self prompt system timeout =
     (if llm_type self = ''claude'' then invoke_claude e self prompt system timeout
      else if llm_type self = ''gemini'' then invoke_gemini e self prompt system timeout
      else if llm_type self = ''lfm'' then invoke_lfm e self prompt system timeout
      else Inl (LLMError UnknownType))"

definition invoke :: "env \<Rightarrow> llm_client \<Rightarrow> string \<Rightarrow> string option \<Rightarrow> int option \<Rightarrow> exn + pyval" where
  "invoke e self prompt system timeout =
     dispatch e self prompt system (effective_timeout self timeout)"

text \<open>
  The loop of \<^verbatim>\<open>invoke_with_files\<close> over the context files. The environment resolves a
  path to the name and the text of the file there.
\<close>

fun context_parts :: "env \<Rightarrow> string list \<Rightarrow> exn + string list" where
  "context_parts e [] = Inr []"
| "context_parts e (file_path # files) =
     (case path e file_path of
        NoSuchFile \<Rightarrow> Inl (LLMError ContextFileNotFound)
      | Unreadable \<Rightarrow> Inl (LLMError ContextFileUnreadable)
      | Readable name content \<Rightarrow>
          (case context_parts e files of
             Inl x \<Rightarrow> Inl x
           | Inr parts \<Rightarrow>
               Inr ((''--- File: '' @ name @ '' ---'' @ [CHR 0x0A] @ content @ [CHR 0x0A] @
                     ''--- End of '' @ name @ '' ---'') # parts)))"

fun join :: "string \<Rightarrow> string list \<Rightarrow> string" where
  "join sep [] = []"
| "join sep [x] = x"
| "join sep (x # y # ys) = x @ sep @ join sep (y # ys)"

definition invoke_with_files :: "env \<Rightarrow> llm_client \<Rightarrow> string \<Rightarrow> string list \<Rightarrow> string option \<Rightarrow> int option \<Rightarrow> exn + pyval" where
  "invoke_with_files e self prompt context_files system timeout =
     (case context_parts e context_files of
        Inl x \<Rightarrow> Inl x
      | Inr parts \<Rightarrow>
          (let full_prompt =
                 (if parts \<noteq> [] then
                    ''Context files:'' @ [CHR 0x0A, CHR 0x0A] @ join [CHR 0x0A, CHR 0x0A] parts @
                    [CHR 0x0A, CHR 0x0A] @ ''User request:'' @ [CHR 0x0A] @ prompt
                  else prompt)
           in invoke e self full_prompt system timeout))"

section \<open>Vocabulary of the properties\<close>

text \<open>
  The fields of a task state as the data model describes them: an integer field that may
  be absent (read with its default), the status of a step, and a \<^verbatim>\<open>steps\<close> mapping whose
  entries are all records.
\<close>

definition int_field :: "(string \<times> pyval) list \<Rightarrow> string \<Rightarrow> int \<Rightarrow> int option" where
  "int_field kvs key dflt =
     (case dict_get kvs key of None \<Rightarrow> Some dflt | Some (PInt n) \<Rightarrow> Some n | Some _ \<Rightarrow> None)"



text \<open>
  The values that the encoder writes and the decoder reads back unchanged: no float (its
  text is not modelled), no object that cannot be encoded, and no key twice in a
  dictionary. \<open>tokens\<close> is the token sequence of the text the encoder writes for a value.
\<close>

fun plain :: "pyval \<Rightarrow> bool" where
  "plain PNone = True"
| "plain (PBool b) = True"
| "plain (PInt i) = True"
| "plain (PFloat r) = False"
| "plain (PStr s) = True"
| "plain (PList xs) = list_all plain xs"
| "plain (PDict ps) = (distinct (map fst ps) \<and> list_all (\<lambda>p. plain (snd p)) ps)"
| "plain (PObject c) = False"

fun tokens :: "pyval \<Rightarrow> token list"
  and tokens_list :: "pyval list \<Rightarrow> token list"
  and tokens_dict :: "(string \<times> pyval) list \<Rightarrow> token list"
where
  "tokens PNone = [TNull]"
| "tokens (PBool b) = [if b then TTrue else TFalse]"
| "tokens (PInt i) = [TInt i]"
| "tokens (PFloat r) = [TFloat r]"
| "tokens (PStr s) = [TString s]"
| "tokens (PList xs) = TLBracket # tokens_list xs @ [TRBracket]"
| "tokens (PDict ps) = TLBrace # tokens_dict ps @ [TRBrace]"
| "tokens (PObject c) = []"
| "tokens_list [] = []"
| "tokens_list [x] = tokens x"
| "tokens_list (x # y # ys) = tokens x @ TComma # tokens_list (y # ys)"
| "tokens_dict [] = []"
| "tokens_dict [(k, v)] = TString k # TColon # tokens v"
| "tokens_dict ((k, v) # q # qs) = TString k # TColon # tokens v @ TComma # tokens_dict (q # qs)"

text \<open>
  Auxiliary notions of the proof that the decoder inverts the encoder: the text after an
  integer must not continue the number; tokens put in front of a lexer result; the
  parser resumed from a configuration; the modes in which a value or a key may start.
\<close>

definition delimited :: "string \<Rightarrow> bool" where
  "delimited rest = (case rest of [] \<Rightarrow> True | c # cs \<Rightarrow> c = CHR '','' \<or> c = CHR 0x0A)"

definition prepend :: "token list \<Rightarrow> token list option \<Rightarrow> token list option" where
  "prepend ts r = (case r of None \<Rightarrow> None | Some us \<Rightarrow> Some (ts @ us))"

definition resume :: "(mode \<times> frame list) option \<Rightarrow> token list \<Rightarrow> pyval option" where
  "resume r ts = (case r of None \<Rightarrow> None | Some (m, st) \<Rightarrow> run m st ts)"

definition value_mode :: "mode \<Rightarrow> bool" where
  "value_mode m = (m = WantValue \<or> m = WantValueOrClose)"

definition key_mode :: "mode \<Rightarrow> bool" where
  "key_mode m = (m = WantKey \<or> m = WantKeyOrClose)"

text \<open>
  What \<^verbatim>\<open>save\<close> makes of a dictionary and of the world: the dictionary with the time stamp
  of the clock under \<^verbatim>\<open>updated_at\<close>, and the world in which the directory exists, the clock
  has been read once and the file holds the text the encoder wrote for a state.
\<close>

definition stamped :: "(string \<times> pyval) list \<Rightarrow> world \<Rightarrow> pyval" where
  "stamped kvs w = PDict (dict_set kvs ''updated_at'' (PStr (clock w (ticks w))))"

definition written :: "pyval \<Rightarrow> world \<Rightarrow> world" where
  "written state w =
     w\<lparr>task_dir := True, ticks := Suc (ticks w), state_file := Some (fst (iterencode 0 state))\<rparr>"

text \<open>
  The state of a task that has just been created, as the data model describes it: status
  \<^verbatim>\<open>INIT\<close>, the five steps pending (\<^verbatim>\<open>implementation\<close> with \<^verbatim>\<open>attempt\<close> 0, \<^verbatim>\<open>testing\<close> with no
  \<^verbatim>\<open>results\<close>), no escalation, no retry, at most 3 retries.
\<close>

definition fresh_state :: "string \<Rightarrow> string \<Rightarrow> string \<Rightarrow> pyval" where
  "fresh_state tid created updated = PDict
     [(''task_id'', PStr tid),
      (''status'', PStr ''INIT''),
      (''created_at'', PStr created),
      (''updated_at'', PStr updated),
      (''steps'', PDict
         [(''design'', PDict [(''status'', PStr ''pending'')]),
          (''test_cases'', PDict [(''status'', PStr ''pending'')]),
          (''implementation'', PDict [(''status'', PStr ''pending''), (''attempt'', PInt 0)]),
          (''testing'', PDict [(''status'', PStr ''pending''), (''results'', PList [])]),
          (''review'', PDict [(''status'', PStr ''pending'')])]),
      (''escalation'', PDict [(''count'', PInt 0), (''history'', PList [])]),
      (''retry_count'', PInt 0),
      (''max_retries'', PInt 3)]"








text \<open>Concrete inputs: a world whose file holds the encoding of a state, and a state in mid-run.\<close>

definition stored :: "pyval \<Rightarrow> world" where
  "stored state =
     \<lparr>task_dir = True, state_file = Some (fst (iterencode 0 state)),
      clock = (\<lambda>n. ''2026-01-01T00:00:00Z''), ticks = 0\<rparr>"

definition task1 :: manager where
  "task1 = \<lparr>runs_dir = ''runs'', task_id = ''t1''\<rparr>"

definition running_fields :: "(string \<times> pyval) list" where
  "running_fields =
     [(''task_id'', PStr ''t1''),
      (''status'', PStr ''IMPLEMENTING''),
      (''steps'', PDict
         [(''design'', PDict [(''status'', PStr ''completed'')]),
          (''test_cases'', PDict [(''status'', PStr ''completed'')]),
          (''implementation'', PDict [(''status'', PStr ''in_progress''), (''attempt'', PInt 1)]),
          (''testing'', PDict [(''status'', PStr ''pending''), (''results'', PList [])]),
          (''review'', PDict [(''status'', PStr ''pending'')])]),
      (''escalation'', PDict [(''count'', PInt 0), (''history'', PList [])]),
      (''retry_count'', PInt 2)]"

definition running_state :: pyval where
  "running_state = PDict running_fields"


definition new_world :: world where
  "new_world =
     \<lparr>task_dir = False, state_file = None, clock = (\<lambda>n. ''2026-01-01T00:00:00Z''), ticks = 0\<rparr>"

text \<open>
  An environment whose command line tool answers with the time-out it was run under, and
  the client that \<^verbatim>\<open>LLMClient("claude")\<close> constructs.
\<close>

definition probe_env :: env where
  "probe_env =
     \<lparr>subprocess_run =
        (\<lambda>command timeout. case timeout of PInt n \<Rightarrow> Completed 0 (int_repr n) [] | _ \<Rightarrow> ProcException),
      urlopen = (\<lambda>url data timeout. URLError),
      path = (\<lambda>p. NoSuchFile)\<rparr>"

definition claude_client :: llm_client where
  "claude_client =
     \<lparr>llm_type = ''claude'',
      config = [(''command'', PList [PStr ''claude'', PStr ''-p'']),
                (''args'', PList [PStr ''--print'']),
                (''timeout'', PInt 120)]\<rparr>"

section \<open>The decoder reads back what the encoder wrote\<close>

lemma digit_val_digit_char: "d < 10 \<Longrightarrow> digit_val (digit_char d) = d"
  by (simp add: digit_val_def digit_char_def)

lemma is_digit_digit_char: "d < 10 \<Longrightarrow> is_digit (digit_char d)"
  by (simp add: is_digit_def digit_char_def)

lemma digits_val_snoc: "digits_val (ds @ [c]) = 10 * digits_val ds + digit_val c"
  by (simp add: digits_val_def)

lemma digits_val_digits: "digits_val (digits n) = n"
proof (induction n rule: digits.induct)
  case (1 n)
  show ?case
  proof (cases "n < 10")
    case True
    then show ?thesis
      by (subst digits.simps) (simp add: digits_val_def digit_val_digit_char)
  next
    case False
    then have "digits_val (digits (n div 10)) = n div 10" using 1 by simp
    then show ?thesis using False
      by (subst digits.simps) (simp add: digits_val_snoc digit_val_digit_char)
  qed
qed

text \<open>The decimal numeral of a number: a single 0, or digits whose first is not 0.\<close>

lemma digits_shape:
  "\<exists>c ds. digits n = c # ds \<and> is_digit c \<and> list_all is_digit ds \<and> (c = CHR ''0'' \<longrightarrow> ds = [])"
proof (induction n rule: digits.induct)
  case (1 n)
  show ?case
  proof (cases "n < 10")
    case True
    then show ?thesis by (subst digits.simps) (simp add: is_digit_digit_char)
  next
    case False
    then obtain c ds where d: "digits (n div 10) = c # ds" "is_digit c" "list_all is_digit ds"
      "c = CHR ''0'' \<longrightarrow> ds = []" using 1 by blast
    have nz: "c \<noteq> CHR ''0''"
    proof
      assume "c = CHR ''0''"
      then have "digits (n div 10) = ''0''" using d by simp
      then have "digits_val (digits (n div 10)) = 0" by (simp add: digits_val_def digit_val_def)
      then show False using False by (simp add: digits_val_digits)
    qed
    have "digits n = c # (ds @ [digit_char (n mod 10)])"
      using False d by (subst digits.simps) simp
    then show ?thesis using d nz by (simp add: is_digit_digit_char)
  qed
qed

lemma takeWhile_digits: "list_all is_digit ds \<Longrightarrow> delimited rest \<Longrightarrow> takeWhile is_digit (ds @ rest) = ds"
  by (induction ds) (auto simp: delimited_def is_digit_def split: list.splits)

lemma dropWhile_digits: "list_all is_digit ds \<Longrightarrow> delimited rest \<Longrightarrow> dropWhile is_digit (ds @ rest) = rest"
  by (induction ds) (auto simp: delimited_def is_digit_def split: list.splits)

lemma match_int_digits: "delimited rest \<Longrightarrow> match_int (digits n @ rest) = Some (digits n, rest)"
proof -
  assume r: "delimited rest"
  obtain c ds where d: "digits n = c # ds" "is_digit c" "list_all is_digit ds"
      "c = CHR ''0'' \<longrightarrow> ds = []" using digits_shape by blast
  show ?thesis using d r by (simp add: match_int_def takeWhile_digits dropWhile_digits)
qed

lemma match_frac_delimited: "delimited rest \<Longrightarrow> match_frac rest = ([], rest)"
  by (auto simp: match_frac_def delimited_def split: list.splits)

lemma match_exp_delimited: "delimited rest \<Longrightarrow> match_exp rest = ([], rest)"
  by (auto simp: match_exp_def delimited_def split: list.splits)

lemma match_number_digits:
  "delimited rest \<Longrightarrow> match_number (digits n @ rest) = Some (TInt (int n), rest)"
proof -
  assume r: "delimited rest"
  obtain c ds where d: "digits n = c # ds" "is_digit c" using digits_shape by blast
  then have m: "c \<noteq> CHR ''-''" by (auto simp: is_digit_def)
  have "match_int (c # ds @ rest) = Some (c # ds, rest)" using match_int_digits [OF r, of n] d by simp
  moreover have "digits_val (c # ds) = n" using digits_val_digits [of n] d by simp
  ultimately show ?thesis using d m r
    by (simp add: match_number_def match_frac_delimited match_exp_delimited)
qed

lemma match_number_minus_digits:
  "delimited rest \<Longrightarrow> match_number (CHR ''-'' # digits n @ rest) = Some (TInt (- int n), rest)"
  by (simp add: match_number_def match_int_digits match_frac_delimited match_exp_delimited digits_val_digits)

lemma match_literal_digit:
  "is_digit c \<Longrightarrow> w \<noteq> [] \<Longrightarrow> \<not> is_digit (hd w) \<Longrightarrow> match_literal w t (c # cs) = None"
  by (cases w) (auto simp: match_literal_def)

lemma match_word_digits: "delimited rest \<Longrightarrow> match_word (digits n @ rest) = Some (TInt (int n), rest)"
proof -
  assume r: "delimited rest"
  obtain c ds where d: "digits n = c # ds" "is_digit c" using digits_shape by blast
  show ?thesis
    using match_number_digits [OF r, of n] d
    by (simp add: match_word_def match_literal_digit is_digit_def)
qed

lemma match_word_minus_digits:
  "delimited rest \<Longrightarrow> match_word (CHR ''-'' # digits n @ rest) = Some (TInt (- int n), rest)"
proof -
  assume r: "delimited rest"
  obtain c ds where d: "digits n = c # ds" "is_digit c" using digits_shape by blast
  then have "c \<noteq> CHR ''I''" by (auto simp: is_digit_def)
  then show ?thesis
    using match_number_minus_digits [OF r, of n] d
    by (simp add: match_word_def match_literal_def)
qed

lemma lexer_int_repr:
  "delimited rest \<Longrightarrow> lexer (int_repr i @ rest) = map_option (Cons (TInt i)) (lexer rest)"
proof -
  assume r: "delimited rest"
  obtain c ds where d: "digits (nat \<bar>i\<bar>) = c # ds" "is_digit c" using digits_shape by blast
  show ?thesis
  proof (cases "i < 0")
    case True
    then have "match_word (CHR ''-'' # digits (nat (- i)) @ rest) = Some (TInt i, rest)"
      using match_word_minus_digits [OF r, of "nat (- i)"] by simp
    then show ?thesis using True by (simp add: int_repr_def is_ws_def)
  next
    case False
    then have i: "nat \<bar>i\<bar> = nat i" by simp
    have "match_word (c # ds @ rest) = Some (TInt i, rest)"
      using match_word_digits [OF r, of "nat i"] d False i by simp
    moreover have "\<not> is_ws c" "c \<noteq> CHR ''{''" "c \<noteq> CHR ''}''" "c \<noteq> CHR ''[''" "c \<noteq> CHR '']''"
      "c \<noteq> CHR '',''" "c \<noteq> CHR '':''" "c \<noteq> CHR 0x22"
      using d(2) by (auto simp: is_digit_def is_ws_def)
    ultimately show ?thesis using False d i by (simp add: int_repr_def)
  qed
qed

lemma hex_val_hex_char: "d < 16 \<Longrightarrow> hex_val (hex_char d) = Some d"
  by (auto simp: hex_val_def hex_char_def Let_def)

lemma hex4_control:
  "n < 32 \<Longrightarrow>
   hex4 (CHR ''0'' # CHR ''0'' # hex_char (n div 16) # hex_char (n mod 16) # tail) = Some (n, tail)"
proof -
  assume n: "n < 32"
  have z: "hex_val (CHR ''0'') = Some 0" by (simp add: hex_val_def)
  have "n div 16 < 16" using n by simp
  then have a: "hex_val (hex_char (n div 16)) = Some (n div 16)" by (rule hex_val_hex_char)
  have b: "hex_val (hex_char (n mod 16)) = Some (n mod 16)" by (rule hex_val_hex_char) simp
  show ?thesis by (simp add: z a b)
qed

lemma decode_uXXXX_control:
  assumes "(of_char c :: nat) < 32"
  shows "decode_uXXXX (CHR ''0'' # CHR ''0'' # hex_char (of_char c div 16) # hex_char (of_char c mod 16) # tail)
         = Some ([c], tail)"
  using assms hex4_control [OF assms, of tail]
  by (simp add: decode_uXXXX_def utf8_def)

lemma scanstring_escape_char:
  assumes "scanstring tail = Some (s, rest)"
  shows "scanstring (escape_char c @ tail) = Some (c # s, rest)"
proof (cases "(of_char c :: nat) < 32")
  case True
  then have nq: "c \<noteq> CHR 0x22" "c \<noteq> CHR 0x5C" by auto
  show ?thesis using assms True nq decode_uXXXX_control [OF True, of tail]
    by (simp add: escape_char_def backslash_def)
next
  case False
  then have "c \<noteq> CHR 0x0A" "c \<noteq> CHR 0x0D" "c \<noteq> CHR 0x09" "c \<noteq> CHR 0x08" "c \<noteq> CHR 0x0C" by auto
  then show ?thesis using assms False
    by (simp add: escape_char_def backslash_def)
qed

lemma scanstring_escaped:
  "scanstring (concat (map escape_char s) @ CHR 0x22 # rest) = Some (s, rest)"
  by (induction s) (simp_all add: scanstring_escape_char)

lemma lexer_encode_basestring:
  "lexer (encode_basestring s @ rest) = map_option (Cons (TString s)) (lexer rest)"
  by (simp add: encode_basestring_def scanstring_escaped is_ws_def)

lemma lexer_spaces: "lexer (replicate n CHR '' '' @ rest) = lexer rest"
  by (induction n) (simp_all add: is_ws_def)

lemma lexer_newline_indent: "lexer (newline_indent level @ rest) = lexer rest"
  by (simp add: newline_indent_def lexer_spaces is_ws_def)

lemma prepend_prepend: "prepend a (prepend b r) = prepend (a @ b) r"
  by (simp add: prepend_def split: option.splits)

lemma map_option_Cons_prepend: "map_option (Cons t) r = prepend [t] r"
  by (simp add: prepend_def split: option.splits)

lemma prepend_Nil: "prepend [] r = r"
  by (simp add: prepend_def split: option.splits)

lemma lexer_punct:
  "lexer (CHR ''{'' # cs) = prepend [TLBrace] (lexer cs)"
  "lexer (CHR ''}'' # cs) = prepend [TRBrace] (lexer cs)"
  "lexer (CHR ''['' # cs) = prepend [TLBracket] (lexer cs)"
  "lexer (CHR '']'' # cs) = prepend [TRBracket] (lexer cs)"
  "lexer (CHR '','' # cs) = prepend [TComma] (lexer cs)"
  "lexer (CHR '':'' # cs) = prepend [TColon] (lexer cs)"
  "lexer (CHR '' '' # cs) = lexer cs"
  by (simp_all add: is_ws_def map_option_Cons_prepend)

lemma lexer_names:
  "lexer (CHR ''n'' # CHR ''u'' # CHR ''l'' # CHR ''l'' # rest) = prepend [TNull] (lexer rest)"
  "lexer (CHR ''t'' # CHR ''r'' # CHR ''u'' # CHR ''e'' # rest) = prepend [TTrue] (lexer rest)"
  "lexer (CHR ''f'' # CHR ''a'' # CHR ''l'' # CHR ''s'' # CHR ''e'' # rest) = prepend [TFalse] (lexer rest)"
  by (simp_all add: is_ws_def match_word_def match_literal_def map_option_Cons_prepend)

lemma delimited_simps:
  "delimited (newline_indent level @ rest)"
  "delimited (CHR '','' # rest)"
  by (simp_all add: delimited_def newline_indent_def)

lemma emit_then_True:
  "emit_then (a, True) b = (a @ fst b, snd b)"
  by (simp add: emit_then_def)

lemma emit_then_finished:
  "snd a \<Longrightarrow> emit_then a b = (fst a @ fst b, snd b)"
  by (simp add: emit_then_def)

lemma lexer_iterencode:
  "plain v \<Longrightarrow> delimited rest \<Longrightarrow>
     snd (iterencode level v) \<and>
     lexer (fst (iterencode level v) @ rest) = prepend (tokens v) (lexer rest)"
  "list_all plain xs \<Longrightarrow> delimited rest \<Longrightarrow>
     snd (iterencode_list level xs) \<and>
     lexer (fst (iterencode_list level xs) @ rest) = prepend (tokens_list xs) (lexer rest)"
  "list_all (\<lambda>p. plain (snd p)) ps \<Longrightarrow> delimited rest \<Longrightarrow>
     snd (iterencode_dict level ps) \<and>
     lexer (fst (iterencode_dict level ps) @ rest) = prepend (tokens_dict ps) (lexer rest)"
proof (induction level v and level xs and level ps arbitrary: rest and rest and rest
       rule: iterencode_iterencode_list_iterencode_dict.induct)
  case (1 level)
  then show ?case by (simp add: lexer_names del: lexer.simps)
next
  case (2 level b)
  then show ?case by (simp add: lexer_names del: lexer.simps)
next
  case (3 level i)
  then show ?case by (simp add: lexer_int_repr map_option_Cons_prepend del: lexer.simps)
next
  case (4 level r)
  then show ?case by simp
next
  case (5 level s)
  then show ?case by (simp add: lexer_encode_basestring map_option_Cons_prepend del: lexer.simps)
next
  case (6 level)
  then show ?case by (simp add: lexer_punct prepend_prepend del: lexer.simps)
next
  case (7 level x xs)
  have d: "delimited (newline_indent level @ CHR '']'' # rest)" by (rule delimited_simps)
  have p: "list_all plain (x # xs)" using 7(2) by simp
  note ih = 7(1) [OF p d]
  show ?case using ih
    by (simp add: emit_then_True emit_then_finished lexer_punct lexer_newline_indent
          prepend_prepend del: lexer.simps)
next
  case (8 level)
  then show ?case by (simp add: lexer_punct prepend_prepend del: lexer.simps)
next
  case (9 level p ps)
  have d: "delimited (newline_indent level @ CHR ''}'' # rest)" by (rule delimited_simps)
  have q: "list_all (\<lambda>p. plain (snd p)) (p # ps)" using 9(2) by simp
  note ih = 9(1) [OF q d]
  show ?case using ih
    by (simp add: emit_then_True emit_then_finished lexer_punct lexer_newline_indent
          prepend_prepend del: lexer.simps)
next
  case (10 level c)
  then show ?case by simp
next
  case (11 level)
  then show ?case by (simp add: prepend_Nil)
next
  case (12 level x)
  then show ?case by simp
next
  case (13 level x y ys)
  have d: "delimited (CHR '','' # newline_indent level @ fst (iterencode_list level (y # ys)) @ rest)"
    by (rule delimited_simps)
  have px: "plain x" and pys: "list_all plain (y # ys)" using 13(3) by simp_all
  note ih1 = 13(1) [OF px d]
  note ih2 = 13(2) [OF pys 13(4)]
  show ?case using ih1 ih2
    by (simp add: emit_then_True emit_then_finished lexer_punct lexer_newline_indent
          prepend_prepend del: lexer.simps)
next
  case (14 level)
  then show ?case by (simp add: prepend_Nil)
next
  case (15 level k v)
  have pv: "plain v" using 15(2) by simp
  note ih = 15(1) [OF pv 15(3)]
  show ?case using ih
    by (simp add: emit_then_True lexer_encode_basestring map_option_Cons_prepend lexer_punct
          prepend_prepend del: lexer.simps)
next
  case (16 level k v q qs)
  have d: "delimited (CHR '','' # newline_indent level @ fst (iterencode_dict level (q # qs)) @ rest)"
    by (rule delimited_simps)
  have pv: "plain v" and pqs: "list_all (\<lambda>p. plain (snd p)) (q # qs)" using 16(3) by simp_all
  note ih1 = 16(1) [OF pv d]
  note ih2 = 16(2) [OF pqs 16(4)]
  show ?case using ih1 ih2
    by (simp add: emit_then_True emit_then_finished lexer_encode_basestring map_option_Cons_prepend
          lexer_punct lexer_newline_indent prepend_prepend del: lexer.simps)
qed

lemma run_Cons: "run m st (t # ts) = resume (step m st t) ts"
  by (simp add: resume_def split: option.splits)

declare run.simps(2) [simp del]

lemma step_value_mode:
  "value_mode m \<Longrightarrow> t \<noteq> TRBracket \<Longrightarrow> step m st t = start_value t st"
  by (cases t) (auto simp: value_mode_def step_def)

lemma step_key_mode:
  "key_mode m \<Longrightarrow> step m (InObj acc # st) (TString k) = Some (WantColon, InPair acc k # st)"
  by (auto simp: key_mode_def step_def take_key_def)

lemma step_after_value:
  "step AfterValue (InList xs # st) TComma = Some (WantValue, InList xs # st)"
  "step AfterValue (InObj ps # st) TComma = Some (WantKey, InObj ps # st)"
  "step AfterValue (InList xs # st) TRBracket = complete (PList xs) st"
  "step AfterValue (InObj ps # st) TRBrace = complete (PDict ps) st"
  "step WantValueOrClose (InList xs # st) TRBracket = complete (PList xs) st"
  "step WantKeyOrClose (InObj ps # st) TRBrace = complete (PDict ps) st"
  "step WantColon st TColon = Some (WantValue, st)"
  by (simp_all add: step_def after_comma_def close_list_def close_obj_def)

lemma dict_set_fresh: "k \<notin> fst ` set ps \<Longrightarrow> dict_set ps k v = ps @ [(k, v)]"
  by (induction ps) auto

lemma run_tokens:
  "plain v \<Longrightarrow> value_mode m \<Longrightarrow> run m st (tokens v @ rest) = resume (complete v st) rest"
  "list_all plain xs \<Longrightarrow> xs \<noteq> [] \<Longrightarrow> value_mode m \<Longrightarrow>
     run m (InList acc # st) (tokens_list xs @ TRBracket # rest) =
     resume (complete (PList (acc @ xs)) st) rest"
  "list_all (\<lambda>p. plain (snd p)) ps \<Longrightarrow> ps \<noteq> [] \<Longrightarrow> distinct (map fst (acc' @ ps)) \<Longrightarrow> key_mode m \<Longrightarrow>
     run m (InObj acc' # st) (tokens_dict ps @ TRBrace # rest) =
     resume (complete (PDict (acc' @ ps)) st) rest"
proof (induction v and xs and ps arbitrary: m st rest and m acc st rest and m acc' st rest
       rule: tokens_tokens_list_tokens_dict.induct)
  case 1
  then show ?case by (simp add: run_Cons step_value_mode)
next
  case (2 b)
  then show ?case by (simp add: run_Cons step_value_mode)
next
  case (3 i)
  then show ?case by (simp add: run_Cons step_value_mode)
next
  case (4 r)
  then show ?case by simp
next
  case (5 s)
  then show ?case by (simp add: run_Cons step_value_mode)
next
  case (6 xs)
  have s: "step m st TLBracket = Some (WantValueOrClose, InList [] # st)"
    using 6(3) by (simp add: step_value_mode)
  show ?case
  proof (cases xs)
    case Nil
    then show ?thesis by (simp add: run_Cons s resume_def step_after_value)
  next
    case (Cons y ys)
    have "run WantValueOrClose (InList [] # st) (tokens_list xs @ TRBracket # rest) =
          resume (complete (PList ([] @ xs)) st) rest"
      using 6 Cons by (intro 6(1)) (simp_all add: value_mode_def)
    then show ?thesis by (simp add: run_Cons s resume_def)
  qed
next
  case (7 ps)
  have s: "step m st TLBrace = Some (WantKeyOrClose, InObj [] # st)"
    using 7(3) by (simp add: step_value_mode)
  show ?case
  proof (cases ps)
    case Nil
    then show ?thesis by (simp add: run_Cons s resume_def step_after_value)
  next
    case (Cons q qs)
    have "run WantKeyOrClose (InObj [] # st) (tokens_dict ps @ TRBrace # rest) =
          resume (complete (PDict ([] @ ps)) st) rest"
      using 7 Cons by (intro 7(1)) (simp_all add: key_mode_def)
    then show ?thesis by (simp add: run_Cons s resume_def)
  qed
next
  case (8 c)
  then show ?case by simp
next
  case 9
  then show ?case by simp
next
  case (10 x)
  have "run m (InList acc # st) (tokens x @ TRBracket # rest) =
        resume (complete x (InList acc # st)) (TRBracket # rest)"
    using 10 by (intro 10(1)) simp_all
  then show ?case by (simp add: resume_def run_Cons step_after_value)
next
  case (11 x y ys)
  have a: "run m (InList acc # st) (tokens x @ TComma # tokens_list (y # ys) @ TRBracket # rest) =
        resume (complete x (InList acc # st)) (TComma # tokens_list (y # ys) @ TRBracket # rest)"
    using 11 by (intro 11(1)) simp_all
  have b: "run WantValue (InList (acc @ [x]) # st) (tokens_list (y # ys) @ TRBracket # rest) =
        resume (complete (PList ((acc @ [x]) @ y # ys)) st) rest"
    using 11 by (intro 11(2)) (simp_all add: value_mode_def)
  show ?case using a b by (simp add: resume_def run_Cons step_after_value)
next
  case 12
  then show ?case by simp
next
  case (13 k v)
  have f: "dict_set acc' k v = acc' @ [(k, v)]" using 13(4) by (intro dict_set_fresh) auto
  have "run WantValue (InPair acc' k # st) (tokens v @ TRBrace # rest) =
        resume (complete v (InPair acc' k # st)) (TRBrace # rest)"
    using 13 by (intro 13(1)) (simp_all add: value_mode_def)
  then show ?case using 13(5)
    by (simp add: resume_def run_Cons step_key_mode step_after_value f)
next
  case (14 k v q qs)
  have f: "dict_set acc' k v = acc' @ [(k, v)]" using 14(5) by (intro dict_set_fresh) auto
  have a: "run WantValue (InPair acc' k # st) (tokens v @ TComma # tokens_dict (q # qs) @ TRBrace # rest) =
        resume (complete v (InPair acc' k # st)) (TComma # tokens_dict (q # qs) @ TRBrace # rest)"
    using 14 by (intro 14(1)) (simp_all add: value_mode_def)
  have b: "run WantKey (InObj (acc' @ [(k, v)]) # st) (tokens_dict (q # qs) @ TRBrace # rest) =
        resume (complete (PDict ((acc' @ [(k, v)]) @ q # qs)) st) rest"
    using 14 by (intro 14(2)) (simp_all add: key_mode_def)
  show ?case using a b 14(6)
    by (simp add: resume_def run_Cons step_key_mode step_after_value f)
qed

lemma json_loads_dumps:
  assumes "plain v"
  shows "snd (iterencode 0 v)" and "json_loads (fst (iterencode 0 v)) = Some v"
proof -
  have d: "delimited []" by (simp add: delimited_def)
  from lexer_iterencode(1) [OF assms d, of 0]
  have f: "snd (iterencode 0 v)" and l: "lexer (fst (iterencode 0 v)) = Some (tokens v)"
    by (simp_all add: prepend_def)
  show "snd (iterencode 0 v)" by (rule f)
  have "run WantValue [] (tokens v @ []) = resume (complete v []) []"
    using assms by (intro run_tokens(1)) (simp_all add: value_mode_def)
  then show "json_loads (fst (iterencode 0 v)) = Some v"
    by (simp add: json_loads_def l resume_def)
qed

section \<open>Properties of the state store\<close>


lemma map_fst_dict_set:
  "map fst (dict_set ps k v) = (if k \<in> set (map fst ps) then map fst ps else map fst ps @ [k])"
  by (induction ps) (auto split: if_splits)

lemma distinct_dict_set: "distinct (map fst ps) \<Longrightarrow> distinct (map fst (dict_set ps k v))"
  by (simp add: map_fst_dict_set)

lemma list_all_dict_set: "list_all P ps \<Longrightarrow> P (k, v) \<Longrightarrow> list_all P (dict_set ps k v)"
  by (induction ps) auto

lemma plain_dict_set: "plain (PDict ps) \<Longrightarrow> plain v \<Longrightarrow> plain (PDict (dict_set ps k v))"
  by (simp add: distinct_dict_set list_all_dict_set)

lemma save_dict:
  "save (PDict kvs) w =
     (if snd (iterencode 0 (stamped kvs w)) then Inr (stamped kvs w) else Inl TypeError,
      written (stamped kvs w) w)"
  by (simp add: save_def get_timestamp_def py_setitem_def stamped_def written_def split_beta)

lemma plain_stamped: "plain (PDict kvs) \<Longrightarrow> plain (stamped kvs w)"
  unfolding stamped_def by (rule plain_dict_set) simp_all

lemma save_plain:
  assumes "plain (PDict kvs)"
  shows "save (PDict kvs) w = (Inr (stamped kvs w), written (stamped kvs w) w)"
  using json_loads_dumps(1) [OF plain_stamped [OF assms]] by (simp add: save_dict)


lemma init_state_result:
  "init_state self n w =
     (let state = PDict
            [(''task_id'', PStr (task_id self)),
             (''status'', PStr ''INIT''),
             (''created_at'', PStr (clock w (ticks w))),
             (''updated_at'', PStr (clock w (Suc (ticks w)))),
             (''steps'', PDict
                [(''design'', PDict [(''status'', PStr ''pending'')]),
                 (''test_cases'', PDict [(''status'', PStr ''pending'')]),
                 (''implementation'', PDict [(''status'', PStr ''pending''), (''attempt'', PInt 0)]),
                 (''testing'', PDict [(''status'', PStr ''pending''), (''results'', PList [])]),
                 (''review'', PDict [(''status'', PStr ''pending'')])]),
             (''escalation'', PDict [(''count'', PInt 0), (''history'', PList [])]),
             (''retry_count'', PInt 0),
             (''max_retries'', PInt n)]
      in (Inr state, w\<lparr>task_dir := True, ticks := Suc (Suc (ticks w)),
                        state_file := Some (fst (iterencode 0 state))\<rparr>))"
proof -
  let ?w2 = "w\<lparr>task_dir := True, ticks := Suc (ticks w)\<rparr>"
  let ?kvs = "[(''task_id'', PStr (task_id self)),
             (''status'', PStr ''INIT''),
             (''created_at'', PStr (clock w (ticks w))),
             (''updated_at'', PStr (clock w (ticks w))),
             (''steps'', PDict
                [(''design'', PDict [(''status'', PStr ''pending'')]),
                 (''test_cases'', PDict [(''status'', PStr ''pending'')]),
                 (''implementation'', PDict [(''status'', PStr ''pending''), (''attempt'', PInt 0)]),
                 (''testing'', PDict [(''status'', PStr ''pending''), (''results'', PList [])]),
                 (''review'', PDict [(''status'', PStr ''pending'')])]),
             (''escalation'', PDict [(''count'', PInt 0), (''history'', PList [])]),
             (''retry_count'', PInt 0),
             (''max_retries'', PInt n)]"
  have p: "plain (PDict ?kvs)" by simp
  have i: "init_state self n w = save (PDict ?kvs) ?w2"
    by (simp add: init_state_def get_timestamp_def INIT_def)
  show ?thesis
    unfolding i save_plain [OF p] by (simp add: stamped_def written_def)
qed

lemma running_state_loads: "json_loads (fst (iterencode 0 running_state)) = Some running_state"
  by (rule json_loads_dumps) (simp add: running_state_def running_fields_def)

lemma load_stored_running_state:
  "load self (stored running_state) = (Inr running_state, stored running_state)"
  by (simp add: load_def stored_def running_state_loads)































text \<open>
  Claim C3. When the task has no record file, \<^verbatim>\<open>load\<close> returns the state of a new task:
  status \<^verbatim>\<open>INIT\<close>, the five steps in their default shape, \<^verbatim>\<open>retry_count\<close> 0, an escalation
  record with count 0 and an empty history, and \<^verbatim>\<open>max_retries\<close> 3. It writes the encoding of
  that state to the file, and a second \<^verbatim>\<open>load\<close> reads the same state back.
\<close>

theorem C3_first_load:
  assumes "state_file w = None"
  shows "load self w =
           (Inr (fresh_state (task_id self) (clock w (ticks w)) (clock w (Suc (ticks w)))),
            w\<lparr>task_dir := True, ticks := Suc (Suc (ticks w)),
              state_file := Some (fst (iterencode 0
                (fresh_state (task_id self) (clock w (ticks w)) (clock w (Suc (ticks w))))))\<rparr>) \<and>
         load self (snd (load self w)) =
           (Inr (fresh_state (task_id self) (clock w (ticks w)) (clock w (Suc (ticks w)))),
            snd (load self w))"
proof -
  let ?s = "fresh_state (task_id self) (clock w (ticks w)) (clock w (Suc (ticks w)))"
  let ?w' = "w\<lparr>task_dir := True, ticks := Suc (Suc (ticks w)),
               state_file := Some (fst (iterencode 0 ?s))\<rparr>"
  have 1: "load self w = (Inr ?s, ?w')"
    using assms by (simp add: load_def init_state_result fresh_state_def)
  have p: "plain ?s" by (simp add: fresh_state_def)
  have 2: "load self ?w' = (Inr ?s, ?w')"
    using json_loads_dumps(2) [OF p] by (simp add: load_def)
  show ?thesis using 1 2 by simp
qed

theorem C3_first_load_witness:
  "fst (load task1 new_world) =
     Inr (fresh_state ''t1'' ''2026-01-01T00:00:00Z'' ''2026-01-01T00:00:00Z'') \<and>
   fst (load task1 (snd (load task1 new_world))) =
     Inr (fresh_state ''t1'' ''2026-01-01T00:00:00Z'' ''2026-01-01T00:00:00Z'')"
proof -
  have n: "state_file new_world = None" by (simp add: new_world_def)
  have t: "task_id task1 = ''t1''" by (simp add: task1_def)
  have c: "clock new_world (ticks new_world) = ''2026-01-01T00:00:00Z''"
    "clock new_world (Suc (ticks new_world)) = ''2026-01-01T00:00:00Z''"
    by (simp_all add: new_world_def)
  note r = C3_first_load [OF n, of task1, unfolded t c]
  have "fst (load task1 new_world) =
          Inr (fresh_state ''t1'' ''2026-01-01T00:00:00Z'' ''2026-01-01T00:00:00Z'')"
    using r [THEN conjunct1] by (simp only: fst_conv)
  moreover have "fst (load task1 (snd (load task1 new_world))) =
          Inr (fresh_state ''t1'' ''2026-01-01T00:00:00Z'' ''2026-01-01T00:00:00Z'')"
    using r [THEN conjunct2] by (simp only: fst_conv)
  ultimately show ?thesis by (rule conjI)
qed








text \<open>
  Claim C7. For every state that \<^verbatim>\<open>load\<close> returns whose \<^verbatim>\<open>retry_count\<close> and \<^verbatim>\<open>max_retries\<close> are
  integers or absent, \<^verbatim>\<open>can_retry\<close> returns whether \<^verbatim>\<open>retry_count < max_retries\<close>, reading an
  absent \<^verbatim>\<open>retry_count\<close> as 0 and an absent \<^verbatim>\<open>max_retries\<close> as 3: true below the limit, false
  once the count is equal to it or greater.
\<close>

theorem C7_can_retry:
  assumes "load self w = (Inr (PDict kvs), w1)"
    and "int_field kvs ''retry_count'' 0 = Some r"
    and "int_field kvs ''max_retries'' 3 = Some m"
  shows "can_retry self w = (Inr (r < m), w1)"
  using assms
  by (auto simp: can_retry_def int_field_def py_get_def py_lt_def as_int_def
           split: option.splits pyval.splits)

theorem C7_can_retry_witness:
  "can_retry task1 (stored running_state) = (Inr True, stored running_state)"
proof -
  have 1: "load task1 (stored running_state) = (Inr (PDict running_fields), stored running_state)"
    using load_stored_running_state [of task1] by (simp add: running_state_def)
  have 2: "int_field running_fields ''retry_count'' 0 = Some 2"
    and 3: "int_field running_fields ''max_retries'' 3 = Some 3"
    by (simp_all add: int_field_def running_fields_def)
  show ?thesis using C7_can_retry [OF 1 2 3] by simp
qed

section \<open>Properties of the invocation client\<close>

text \<open>
  What \<^verbatim>\<open>invoke\<close> does with the time-out: one that is given and is not 0 is the time-out the
  backend is called with, whatever the configuration says; when none is given, the
  backend is called with the time-out of the configuration.
\<close>

lemma invoke_timeout:
  "(t \<noteq> 0 \<longrightarrow>
      invoke e self prompt system (Some t) = dispatch e self prompt system (PInt t)) \<and>
   invoke e self prompt system None = dispatch e self prompt system (config_get self ''timeout'')"
  by (simp add: invoke_def effective_timeout_def)

lemma invoke_timeout_example:
  "invoke probe_env claude_client ''hi'' None (Some 5) = Inr (PStr ''5'') \<and>
   invoke probe_env claude_client ''hi'' None None = Inr (PStr ''120'')"
proof -
  have 1: "dispatch probe_env claude_client ''hi'' None (PInt 5) = Inr (PStr ''5'')"
    by code_simp
  have 2: "dispatch probe_env claude_client ''hi'' None (config_get claude_client ''timeout'') =
           Inr (PStr ''120'')"
    by code_simp
  show ?thesis
    using invoke_timeout [of 5 probe_env claude_client "''hi''" None] 1 2 by simp
qed

text \<open>
  Claim C8 says that a time-out given to \<^verbatim>\<open>invoke\<close> is the time-out of the call. The code
  does not do so for the time-out 0: \<^verbatim>\<open>timeout or self.config.get("timeout")\<close> takes 0 for
  no time-out. The client that \<^verbatim>\<open>LLMClient("claude")\<close> constructs, called with
  \<^verbatim>\<open>timeout=0\<close>, runs its tool under the 120 seconds of the configuration.
\<close>

theorem C8_zero_timeout:
  "LLMClient ''claude'' None = Inr claude_client \<and>
   effective_timeout claude_client (Some 0) = PInt 120 \<and>
   invoke probe_env claude_client ''hi'' None (Some 0) = Inr (PStr ''120'')"
proof (intro conjI)
  show "LLMClient ''claude'' None = Inr claude_client"
    by (simp add: LLMClient_def SUPPORTED_TYPES_def DEFAULT_CONFIGS_def claude_client_def)
  show "effective_timeout claude_client (Some 0) = PInt 120"
    by (simp add: effective_timeout_def config_get_def claude_client_def)
  show "invoke probe_env claude_client ''hi'' None (Some 0) = Inr (PStr ''120'')"
    by code_simp
qed

text \<open>
  Claim C9. Constructing a client with a type outside \<^verbatim>\<open>SUPPORTED_TYPES\<close> fails at once
  with \<^verbatim>\<open>ValueError\<close> (the constructor makes one test and no second attempt); with a
  supported type the constructor returns the client, its configuration the defaults of
  the type with the caller's entries stored over them.
\<close>

theorem C9_unsupported_type:
  "(type \<notin> set SUPPORTED_TYPES \<longrightarrow> LLMClient type cfg = Inl ValueError) \<and>
   (type \<in> set SUPPORTED_TYPES \<longrightarrow>
      (\<exists>defaults. map_of DEFAULT_CONFIGS type = Some defaults \<and>
         LLMClient type cfg =
           Inr \<lparr>llm_type = type,
                config = dict_merge defaults (case cfg of None \<Rightarrow> [] | Some c \<Rightarrow> c)\<rparr>))"
  by (auto simp: LLMClient_def SUPPORTED_TYPES_def DEFAULT_CONFIGS_def)

theorem C9_unsupported_type_witness:
  "LLMClient ''gpt'' None = Inl ValueError \<and> LLMClient ''claude'' None = Inr claude_client"
  using C9_unsupported_type [of "''gpt''" None] C9_unsupported_type [of "''claude''" None]
  by (simp add: SUPPORTED_TYPES_def DEFAULT_CONFIGS_def claude_client_def)

text \<open>
  Claim C10. With an empty list of context files \<^verbatim>\<open>invoke_with_files\<close> is \<^verbatim>\<open>invoke\<close> on the same
  prompt, system prompt and time-out: the prompt is passed on as it is.
\<close>

theorem C10_no_context_files:
  "invoke_with_files e self prompt [] system timeout = invoke e self prompt system timeout"
  by (simp add: invoke_with_files_def)

end
